theory Spec2Isabelle
  imports Complex_Main
begin

section \<open>Python values used by the quotation generator\<close>

text \<open>
  The program under study is \<^verbatim>\<open>src/main.py\<close>: a FastAPI service that prices the
  lines of a quotation (preventivo) and lays them out with reportlab.

  Conventions of the embedding.
  \<^item> A Python \<^verbatim>\<open>float\<close> is a \<^typ>\<open>real\<close>: finite values with exact arithmetic.
    Binary representation error, infinities and NaN are outside the model, so every
    statement below is about the decimal arithmetic the program intends; the concrete
    inputs evaluated below are values on which binary floating point arithmetic gives
    the same results.
  \<^item> A Python \<^verbatim>\<open>str\<close> is a \<^typ>\<open>string\<close> holding its UTF-8 encoding. The program
    only searches for, and replaces, ASCII characters, and an ASCII byte never occurs
    inside the encoding of another code point, so these operations agree with the ones
    on code points.
  \<^item> \<^verbatim>\<open>Optional[t]\<close> is \<^typ>\<open>'a option\<close>, with \<^term>\<open>None\<close> for Python's \<^verbatim>\<open>None\<close>.
\<close>

subsection \<open>Strings\<close>

definition lower_char :: "char \<Rightarrow> char" where
  "lower_char c =
     (let n = (of_char c :: nat)
      in if of_char CHR ''A'' \<le> n \<and> n \<le> of_char CHR ''Z'' then char_of (n + 32) else c)"

text \<open>
  \<^verbatim>\<open>s.lower()\<close>. Outside ASCII, Python's lowercasing never yields one of the letters
  of the markers \<^verbatim>\<open>pz\<close>, \<^verbatim>\<open>corpo\<close> and \<^verbatim>\<open>mq\<close>, so the bytes of other code points are
  left as they are.
\<close>

definition str_lower :: "string \<Rightarrow> string" where
  "str_lower s = map lower_char s"

fun startswith :: "string \<Rightarrow> string \<Rightarrow> bool" where
  "startswith s [] = True"
| "startswith [] (p # ps) = False"
| "startswith (c # cs) (p # ps) = (c = p \<and> startswith cs ps)"

text \<open>\<^verbatim>\<open>sub in s\<close> on strings: \<^verbatim>\<open>sub\<close> occurs in \<^verbatim>\<open>s\<close> as a contiguous substring.\<close>

fun str_in :: "string \<Rightarrow> string \<Rightarrow> bool" where
  "str_in sub [] = (sub = [])"
| "str_in sub (c # cs) = (startswith (c # cs) sub \<or> str_in sub cs)"

text \<open>\<^verbatim>\<open>s.replace(old, new)\<close> where \<^verbatim>\<open>old\<close> and \<^verbatim>\<open>new\<close> are single characters.\<close>

definition replace_char :: "char \<Rightarrow> char \<Rightarrow> string \<Rightarrow> string" where
  "replace_char old new s = map (\<lambda>c. if c = old then new else c) s"

definition digit_char :: "nat \<Rightarrow> char" where
  "digit_char d = ''0123456789'' ! (d mod 10)"

text \<open>\<^verbatim>\<open>str(n)\<close> of a non-negative integer, then of any integer.\<close>

fun str_nat :: "nat \<Rightarrow> string" where
  "str_nat n = (if n < 10 then [digit_char n] else str_nat (n div 10) @ [digit_char (n mod 10)])"

declare str_nat.simps [simp del]

definition str_int :: "int \<Rightarrow> string" where
  "str_int i = (if i < 0 then ''-'' @ str_nat (nat (- i)) else str_nat (nat i))"

subsection \<open>Rounding and number formatting\<close>

text \<open>
  Python rounds a float to the nearest value with the requested number of decimals and
  resolves an exact tie towards the even digit; \<^verbatim>\<open>round(x, n)\<close> and the format
  specification \<^verbatim>\<open>.nf\<close> share this rule.
\<close>

definition round_half_even :: "real \<Rightarrow> int" where
  "round_half_even y =
     (let f = \<lfloor>y\<rfloor>; d = y - of_int f
      in if d < 1 / 2 then f else if 1 / 2 < d then f + 1
         else if even f then f else f + 1)"

definition py_round :: "real \<Rightarrow> nat \<Rightarrow> real" where
  "py_round x ndigits = of_int (round_half_even (x * 10 ^ ndigits)) / 10 ^ ndigits"

text \<open>\<^verbatim>\<open>int(x)\<close> of a float: truncation towards zero.\<close>

definition py_int :: "real \<Rightarrow> int" where
  "py_int x = (if x < 0 then - \<lfloor>- x\<rfloor> else \<lfloor>x\<rfloor>)"

text \<open>
  The digits of a non-negative integer in groups of three from the right, as the
  \<^verbatim>\<open>,\<close> option of the format specification writes them.
\<close>

fun group3 :: "char \<Rightarrow> string \<Rightarrow> string" where
  "group3 sep ds =
     (if length ds \<le> 3 then ds
      else group3 sep (take (length ds - 3) ds) @ [sep] @ drop (length ds - 3) ds)"

declare group3.simps [simp del]

definition zfill :: "nat \<Rightarrow> string \<Rightarrow> string" where
  "zfill w s = replicate (w - length s) CHR ''0'' @ s"

text \<open>
  \<^verbatim>\<open>format(v, ".{prec}f")\<close>, and \<^verbatim>\<open>format(v, ",.{prec}f")\<close> when \<open>comma\<close> holds: a minus
  sign for a negative value (also one that rounds to zero), the integer digits, and,
  when \<open>prec\<close> is positive, a point and exactly \<open>prec\<close> decimals.
\<close>

definition py_format_f :: "bool \<Rightarrow> nat \<Rightarrow> real \<Rightarrow> string" where
  "py_format_f comma prec v =
     (let n = nat (round_half_even (\<bar>v\<bar> * 10 ^ prec));
          ip = str_nat (n div 10 ^ prec);
          fp = zfill prec (str_nat (n mod 10 ^ prec))
      in (if v < 0 then ''-'' else [])
         @ (if comma then group3 CHR '','' ip else ip)
         @ (if prec = 0 then [] else ''.'' @ fp))"

text \<open>The euro sign U+20AC and the letters a-grave and e-grave, in UTF-8.\<close>

definition euro_sign :: string where
  "euro_sign = [CHR 0xE2, CHR 0x82, CHR 0xAC]"

definition a_grave :: string where
  "a_grave = [CHR 0xC3, CHR 0xA0]"

definition e_grave :: string where
  "e_grave = [CHR 0xC3, CHR 0xA8]"

section \<open>Data model (the pydantic classes)\<close>

record VocePreventivo =
  descrizione :: string
  pz :: "int option"
  qta :: "real option"
  um :: "string option"
  prezzo :: "real option"

text \<open>
  Fields named alike in two classes carry a prefix in the second one: \<open>az_nome\<close> and
  \<open>az_indirizzo\<close> of \<^verbatim>\<open>DatiAzienda\<close>, \<open>prev_numero\<close> of \<^verbatim>\<open>Preventivo\<close>.
\<close>

record Posizione =
  numero :: int
  voci :: "VocePreventivo list"

record DatiCliente =
  nome :: string
  indirizzo :: string
  citta :: string
  cantiere :: string

record DatiAzienda =
  az_nome :: string
  az_indirizzo :: string
  cap_citta :: string
  p_iva :: string
  telefono :: string
  email :: string
  sito :: string

definition DatiAzienda_default :: DatiAzienda where
  "DatiAzienda_default =
     \<lparr>az_nome = ''AbitaLab'',
      az_indirizzo = ''Via dell'' @ [CHR 0x27] @ ''Innovazione, 1'',
      cap_citta = ''20121 Milano (MI)'',
      p_iva = ''P.Iva: 12345678901'',
      telefono = ''Tel. 02 12345678'',
      email = ''Mail: info@abitalab.it'',
      sito = ''Sito: www.abitalab.it''\<rparr>"

record Preventivo =
  prev_numero :: string
  data :: string
  cliente :: DatiCliente
  azienda :: DatiAzienda
  posizioni :: "Posizione list"
  iva_percentuale :: real

section \<open>Pricing\<close>

text \<open>
  The test \<^verbatim>\<open>voce.um and marker in voce.um.lower()\<close>: the unit of measure is present,
  is not the empty string, and its lowercase form contains the marker.
\<close>

definition um_contains :: "string \<Rightarrow> VocePreventivo \<Rightarrow> bool" where
  "um_contains marker voce =
     (case um voce of
        None \<Rightarrow> False
      | Some u \<Rightarrow> u \<noteq> [] \<and> str_in marker (str_lower u))"

text \<open>
  The \<^verbatim>\<open>if\<close>/\<^verbatim>\<open>elif\<close>/\<^verbatim>\<open>else\<close> chain of \<^verbatim>\<open>calcola_totale_voce\<close>: \<^term>\<open>Some r\<close> where a
  branch executes \<^verbatim>\<open>return r\<close>, \<^term>\<open>None\<close> where control leaves the chain without
  returning.
\<close>

definition regola_um :: "VocePreventivo \<Rightarrow> real \<Rightarrow> real option" where
  "regola_um voce p =
     (if um_contains ''pz'' voce then
        (case pz voce of
           Some n \<Rightarrow> Some (py_round (p * of_int n) 2)
         | None \<Rightarrow> None)
      else if um_contains ''corpo'' voce then Some (py_round p 2)
      else if um_contains ''mq'' voce then
        (case qta voce of
           Some q \<Rightarrow>
             if 10000 < p \<and> 10 < q then Some (py_round p 2)
             else Some (py_round (p * q) 2)
         | None \<Rightarrow> None)
      else
        (case qta voce of
           Some q \<Rightarrow> Some (py_round (p * q) 2)
         | None \<Rightarrow> None))"

definition calcola_totale_voce :: "VocePreventivo \<Rightarrow> real" where
  "calcola_totale_voce voce =
     (case prezzo voce of
        None \<Rightarrow> 0
      | Some p \<Rightarrow>
          (case regola_um voce p of
             Some r \<Rightarrow> r
           | None \<Rightarrow> py_round p 2))"

section \<open>Display formatting\<close>

definition formatta_euro :: "real \<Rightarrow> string" where
  "formatta_euro valore =
     replace_char CHR ''X'' CHR ''.''
       (replace_char CHR ''.'' CHR '',''
          (replace_char CHR '','' CHR ''X'' (py_format_f True 2 valore @ '' '' @ euro_sign)))"

text \<open>The three replacements of \<^verbatim>\<open>formatta_euro\<close> as one map over the characters.\<close>

definition scambia :: "char \<Rightarrow> char" where
  "scambia c =
     (if c = CHR '','' then CHR ''.''
      else if c = CHR ''.'' then CHR '',''
      else if c = CHR ''X'' then CHR ''.''
      else c)"

definition formatta_numero :: "real \<Rightarrow> string" where
  "formatta_numero valore =
     (if valore = of_int (py_int valore) then str_int (py_int valore)
      else replace_char CHR ''.'' CHR '','' (py_format_f False 2 valore))"

text \<open>\<^verbatim>\<open>voce.um if voce.um else ''\<close>: an absent unit of measure prints as the empty string.\<close>

definition um_o_vuoto :: "VocePreventivo \<Rightarrow> string" where
  "um_o_vuoto voce = (case um voce of None \<Rightarrow> [] | Some u \<Rightarrow> u)"

definition formatta_prezzo_e_um :: "VocePreventivo \<Rightarrow> string \<times> string" where
  "formatta_prezzo_e_um voce =
     (case prezzo voce of
        None \<Rightarrow> ([], um_o_vuoto voce)
      | Some p \<Rightarrow> (formatta_euro p, um_o_vuoto voce))"

text \<open>
  The currency format in the words of the specification: an optional minus sign, the
  integer digits in groups of three separated by \<^verbatim>\<open>.\<close>, a \<^verbatim>\<open>,\<close>, exactly two decimals,
  a space and the euro sign. \<open>centesimi\<close> is the magnitude in hundredths, rounded.
\<close>

definition centesimi :: "real \<Rightarrow> nat" where
  "centesimi v = nat (round_half_even (\<bar>v\<bar> * 100))"

definition formato_italiano :: "real \<Rightarrow> string" where
  "formato_italiano v =
     (if v < 0 then ''-'' else [])
     @ group3 CHR ''.'' (str_nat (centesimi v div 100))
     @ '',''
     @ [digit_char (centesimi v div 10 mod 10), digit_char (centesimi v mod 10)]
     @ '' '' @ euro_sign"

section \<open>The document: reportlab flowables\<close>

text \<open>
  \<^verbatim>\<open>genera_pdf_preventivo\<close> builds a list of reportlab flowables and hands it to
  \<^verbatim>\<open>doc.build\<close>. The flowables are data here: a constructor per reportlab class, with
  the arguments the program passes. reportlab's own layout of the list is not part of
  the program and is not modelled; two points of its behaviour are, because the program
  depends on them: what \<^verbatim>\<open>Table.setStyle\<close> does with an entry that is not a command
  (below), and what the base class of the page-numbering canvas does (next section).

  In the block that loads the logo, constructing the \<^verbatim>\<open>Image\<close> and the fallback
  \<^verbatim>\<open>Paragraph\<close> may raise, and the model follows both exceptions. In the rest of the
  function a \<^verbatim>\<open>Paragraph\<close> is taken to be constructed without an exception.
\<close>

datatype py_error = TypeError | ValueError | OSError | RequestException string

definition cm :: real where
  "cm = 72 / 2.54"

datatype alignment = TA_LEFT | TA_CENTER | TA_RIGHT | TA_JUSTIFY

datatype style_attr =
    fontName string
  | fontSize real
  | leading real
  | alignment alignment
  | spaceBefore real

text \<open>\<^verbatim>\<open>ParagraphStyle(name, **attrs)\<close>: the name and the attributes given.\<close>

datatype para_style = ParagraphStyle string "style_attr list"

datatype colour = HexColor string | black | whitesmoke | grey

datatype cmd_arg = Colour colour | Text string | Num real

text \<open>
  A table style command \<^verbatim>\<open>(name, (col, row), (col, row), args...)\<close>; a negative
  coordinate counts from the end, as a Python index does.
\<close>

datatype style_cmd = Cmd string "int \<times> int" "int \<times> int" "cmd_arg list"

datatype flowable =
    Paragraph string para_style
  | Image string real real string
  | Spacer real real
  | PageBreak
  | Table "cell list list" "real list" "nat option" "style_cmd list"
and cell =
    Str string
  | Flow flowable
  | Flows "flowable list"

text \<open>
  \<^verbatim>\<open>t = Table(data, colWidths, repeatRows); t.setStyle(TableStyle(cmds))\<close>. The list
  \<open>cmds\<close> is a Python list, whose entries may be \<^verbatim>\<open>None\<close>. reportlab's \<^verbatim>\<open>setStyle\<close>
  reads \<^verbatim>\<open>cmd[0]\<close> of every entry, which raises \<^verbatim>\<open>TypeError\<close> on \<^verbatim>\<open>None\<close>; a list of
  commands is stored in the table.
\<close>

definition Table_setStyle ::
  "cell list list \<Rightarrow> real list \<Rightarrow> nat option \<Rightarrow> style_cmd option list \<Rightarrow> py_error + flowable"
where
  "Table_setStyle table_data colWidths repeatRows cmds =
     (case those cmds of
        None \<Rightarrow> Inl TypeError
      | Some cs \<Rightarrow> Inr (Table table_data colWidths repeatRows cs))"

text \<open>Sequencing of steps that may raise: the first exception ends the function.\<close>

definition and_then :: "py_error + 'a \<Rightarrow> ('a \<Rightarrow> py_error + 'b) \<Rightarrow> py_error + 'b" where
  "and_then r f = (case r of Inl e \<Rightarrow> Inl e | Inr x \<Rightarrow> f x)"

subsection \<open>Paragraph styles\<close>

definition custom_styles :: "(string \<times> para_style) list" where
  "custom_styles =
     [(''HeaderInfo'', ParagraphStyle ''HeaderInfo'' [fontSize 9, leading 12]),
      (''CompanyName'',
         ParagraphStyle ''CompanyName'' [fontName ''Helvetica-Bold'', fontSize 16, leading 18]),
      (''BoldRight'',
         ParagraphStyle ''BoldRight'' [fontName ''Helvetica-Bold'', alignment TA_RIGHT]),
      (''SmallText'', ParagraphStyle ''SmallText'' [fontSize 8, leading 10]),
      (''SmallTextCenter'',
         ParagraphStyle ''SmallTextCenter'' [fontSize 8, leading 10, alignment TA_CENTER]),
      (''SmallTextRight'',
         ParagraphStyle ''SmallTextRight'' [fontSize 8, leading 10, alignment TA_RIGHT]),
      (''TotalsLabel'', ParagraphStyle ''TotalsLabel'' [alignment TA_RIGHT, fontSize 10]),
      (''TotalsValue'',
         ParagraphStyle ''TotalsValue''
           [fontName ''Helvetica-Bold'', alignment TA_RIGHT, fontSize 10]),
      (''NormalCenter'', ParagraphStyle ''NormalCenter'' [alignment TA_CENTER]),
      (''LegalTitle'',
         ParagraphStyle ''LegalTitle'' [fontName ''Helvetica-Bold'', fontSize 8, spaceBefore 6]),
      (''LegalBody'',
         ParagraphStyle ''LegalBody'' [fontSize 8, alignment TA_JUSTIFY, spaceBefore 4])]"

text \<open>
  \<^verbatim>\<open>styles[name]\<close>: the sample style sheet with the custom styles added. The only
  style of the sample sheet that the program uses is \<^verbatim>\<open>Normal\<close>, kept by name.
\<close>

definition styles :: "string \<Rightarrow> para_style" where
  "styles name =
     (case map_of custom_styles name of
        Some st \<Rightarrow> st
      | None \<Rightarrow> ParagraphStyle name [])"

subsection \<open>Header: logo and company details\<close>

text \<open>
  The outcome of \<^verbatim>\<open>requests.get(logo_url, timeout=10)\<close>: an exception (connection
  error, timeout, ...) with its message, or a response with its status code and body.
\<close>

datatype fetch_result = Raised string | Response int string

text \<open>
  What reportlab does with the two values that the logo block hands to it is not decided
  by the program, so it is a parameter: whether the markup parser of \<^verbatim>\<open>Paragraph\<close>
  rejects a text, and whether \<^verbatim>\<open>Image\<close> rejects the bytes of a response.
\<close>

record reportlab =
  parser_rejects :: "string \<Rightarrow> bool"
  image_rejects :: "string \<Rightarrow> bool"

text \<open>
  A text with neither \<^verbatim>\<open><\<close> nor \<^verbatim>\<open>&\<close> holds no tag and no entity; the parser accepts
  it, also between \<^verbatim>\<open><b>\<close> and \<^verbatim>\<open></b>\<close>, whatever the parameter says.
\<close>

definition senza_markup :: "string \<Rightarrow> bool" where
  "senza_markup text = (CHR ''<'' \<notin> set text \<and> CHR ''&'' \<notin> set text)"

text \<open>
  \<^verbatim>\<open>Paragraph(f"<b>{preventivo.azienda.nome}</b>", ParagraphStyle('LogoFallback', ...))\<close>:
  the paragraph, or the \<^verbatim>\<open>ValueError\<close> of the parser.
\<close>

definition logo_fallback :: "reportlab \<Rightarrow> Preventivo \<Rightarrow> py_error + flowable" where
  "logo_fallback rl preventivo =
     (let text = ''<b>'' @ az_nome (azienda preventivo) @ ''</b>''
      in if \<not> senza_markup (az_nome (azienda preventivo)) \<and> parser_rejects rl text
         then Inl ValueError
         else Inr (Paragraph text
                     (ParagraphStyle ''LogoFallback'' [fontSize 16, alignment TA_CENTER])))"

text \<open>
  The body of the \<^verbatim>\<open>try\<close>: the request, then the image for status 200 and the fallback
  paragraph for any other status.
\<close>

definition logo_try :: "reportlab \<Rightarrow> fetch_result \<Rightarrow> Preventivo \<Rightarrow> py_error + flowable" where
  "logo_try rl fetch preventivo =
     (case fetch of
        Raised e \<Rightarrow> Inl (RequestException e)
      | Response status_code content \<Rightarrow>
          if status_code = 200 then
            (if image_rejects rl content then Inl OSError
             else Inr (Image content (7 * cm) (2 * cm) ''LEFT''))
          else logo_fallback rl preventivo)"

text \<open>
  The whole \<^verbatim>\<open>try\<close>/\<^verbatim>\<open>except Exception\<close> block: the handler catches whatever the body
  raised and builds the fallback paragraph itself, outside any \<^verbatim>\<open>try\<close>, so an exception
  of that construction leaves the function.
\<close>

definition logo_element :: "reportlab \<Rightarrow> fetch_result \<Rightarrow> Preventivo \<Rightarrow> py_error + flowable" where
  "logo_element rl fetch preventivo =
     (case logo_try rl fetch preventivo of
        Inr logo \<Rightarrow> Inr logo
      | Inl e \<Rightarrow> logo_fallback rl preventivo)"

definition company_details :: "Preventivo \<Rightarrow> flowable list" where
  "company_details preventivo =
     [Paragraph (az_nome (azienda preventivo)) (styles ''CompanyName''),
      Paragraph (az_indirizzo (azienda preventivo)) (styles ''HeaderInfo''),
      Paragraph (cap_citta (azienda preventivo)) (styles ''HeaderInfo''),
      Paragraph (p_iva (azienda preventivo)) (styles ''HeaderInfo''),
      Paragraph (telefono (azienda preventivo)) (styles ''HeaderInfo''),
      Paragraph (email (azienda preventivo)) (styles ''HeaderInfo''),
      Paragraph (sito (azienda preventivo)) (styles ''HeaderInfo'')]"

definition header_table :: "flowable \<Rightarrow> Preventivo \<Rightarrow> py_error + flowable" where
  "header_table logo preventivo =
     Table_setStyle [[Flow logo, Flows (company_details preventivo)]] [7 * cm, 11 * cm] None
       [Some (Cmd ''VALIGN'' (0, 0) (-1, -1) [Text ''TOP'']),
        Some (Cmd ''ALIGN'' (0, 0) (0, 0) [Text ''LEFT'']),
        Some (Cmd ''LEFTPADDING'' (1, 0) (1, 0) [Num 20]),
        Some (Cmd ''RIGHTPADDING'' (0, 0) (0, 0) [Num 15])]"

subsection \<open>Quotation and client information\<close>

definition nl :: string where
  "nl = [CHR 0x0A]"

definition quote_info :: "Preventivo \<Rightarrow> string" where
  "quote_info preventivo =
     nl @ ''    Data: '' @ data preventivo @ ''<br/><br/>''
     @ nl @ ''    <b>Preventivo N. '' @ prev_numero preventivo @ ''</b><br/><br/>''
     @ nl @ ''    <b>Cantiere:</b> '' @ cantiere (cliente preventivo)
     @ nl @ ''    ''"

definition client_info :: "Preventivo \<Rightarrow> string" where
  "client_info preventivo =
     nl @ ''    Spett.le<br/>''
     @ nl @ ''    <b>'' @ nome (cliente preventivo) @ ''</b><br/>''
     @ nl @ ''    '' @ indirizzo (cliente preventivo) @ ''<br/>''
     @ nl @ ''    '' @ citta (cliente preventivo)
     @ nl @ ''    ''"

definition info_table :: "Preventivo \<Rightarrow> py_error + flowable" where
  "info_table preventivo =
     Table_setStyle
       [[Flow (Paragraph (quote_info preventivo) (styles ''Normal'')),
         Flow (Paragraph (client_info preventivo) (styles ''Normal''))]]
       [9 * cm, 9 * cm] None
       [Some (Cmd ''VALIGN'' (0, 0) (-1, -1) [Text ''TOP''])]"

definition testo_introduttivo :: flowable where
  "testo_introduttivo =
     Paragraph
       (''RingraziandoVi per la gentile richiesta, siamo a sottoporre alla Vostra ''
        @ ''attenzione la nostra migliore offerta:'')
       (styles ''Normal'')"

subsection \<open>One table per position\<close>

definition headers :: "cell list" where
  "headers =
     [Str ''Pos.'', Str ''Descrizione'', Str ''Pz'', Str (''Qt'' @ a_grave), Str ''U.M.'',
      Str ''Prezzo'', Str ''Totale'']"

text \<open>The row that the body of the loop over \<^verbatim>\<open>pos.voci\<close> appends for one line.\<close>

definition riga_voce :: "Posizione \<Rightarrow> bool \<Rightarrow> VocePreventivo \<Rightarrow> cell list" where
  "riga_voce pos is_first_row voce =
     (let pos_num =
            (if is_first_row
             then Flow (Paragraph (''<b>'' @ str_int (numero pos) @ ''</b>'')
                          (styles ''SmallTextCenter''))
             else Str []);
          totale_voce = calcola_totale_voce voce;
          pz_str = (case pz voce of Some n \<Rightarrow> str_int n | None \<Rightarrow> []);
          qta_str = (case qta voce of Some q \<Rightarrow> formatta_numero q | None \<Rightarrow> []);
          (prezzo_str, um_str) = formatta_prezzo_e_um voce;
          totale_str = formatta_euro totale_voce
      in [pos_num,
          Flow (Paragraph (descrizione voce) (styles ''SmallText'')),
          Flow (Paragraph pz_str (styles ''SmallTextCenter'')),
          Flow (Paragraph qta_str (styles ''SmallTextCenter'')),
          Flow (Paragraph um_str (styles ''SmallTextCenter'')),
          Flow (Paragraph prezzo_str (styles ''SmallTextRight'')),
          Flow (Paragraph totale_str (styles ''SmallTextRight''))])"

text \<open>
  The loop \<^verbatim>\<open>for voce in pos.voci\<close> on its three variables: the rows so far, the
  running position total and the first-row flag.
\<close>

fun voci_loop ::
  "Posizione \<Rightarrow> VocePreventivo list \<Rightarrow> cell list list \<times> real \<times> bool
     \<Rightarrow> cell list list \<times> real \<times> bool"
where
  "voci_loop pos [] st = st"
| "voci_loop pos (voce # rest) (table_data, totale_posizione, is_first_row) =
     voci_loop pos rest
       (table_data @ [riga_voce pos is_first_row voce],
        totale_posizione + calcola_totale_voce voce,
        False)"

definition righe_posizione :: "Posizione \<Rightarrow> cell list list" where
  "righe_posizione pos = fst (voci_loop pos (voci pos) ([headers], 0, True))"

definition totale_posizione :: "Posizione \<Rightarrow> real" where
  "totale_posizione pos = fst (snd (voci_loop pos (voci pos) ([headers], 0, True)))"

definition riga_totale :: "Posizione \<Rightarrow> cell list" where
  "riga_totale pos =
     [Str [],
      Flow (Paragraph ''<b>Totale Posizione</b>'' (styles ''BoldRight'')),
      Str [], Str [], Str [], Str [],
      Flow (Paragraph (''<b>'' @ formatta_euro (totale_posizione pos) @ ''</b>'')
              (styles ''BoldRight''))]"

definition table_data :: "Posizione \<Rightarrow> cell list list" where
  "table_data pos = righe_posizione pos @ [riga_totale pos]"

text \<open>
  The list given to \<^verbatim>\<open>TableStyle\<close> for a position table. Its eleventh entry is the
  conditional expression \<^verbatim>\<open>('SPAN', (0, 1), (0, -2)) if len(pos.voci) > 1 else None\<close>.
\<close>

definition stile_posizione :: "Posizione \<Rightarrow> style_cmd option list" where
  "stile_posizione pos =
     [Some (Cmd ''BACKGROUND'' (0, 0) (-1, 0) [Colour (HexColor ''#003366'')]),
      Some (Cmd ''TEXTCOLOR'' (0, 0) (-1, 0) [Colour whitesmoke]),
      Some (Cmd ''FONTNAME'' (0, 0) (-1, 0) [Text ''Helvetica-Bold'']),
      Some (Cmd ''FONTSIZE'' (0, 0) (-1, -1) [Num 8]),
      Some (Cmd ''ALIGN'' (0, 0) (-1, 0) [Text ''CENTER'']),
      Some (Cmd ''VALIGN'' (0, 0) (-1, -1) [Text ''TOP'']),
      Some (Cmd ''ALIGN'' (2, 1) (4, -1) [Text ''CENTER'']),
      Some (Cmd ''ALIGN'' (5, 1) (-1, -1) [Text ''RIGHT'']),
      Some (Cmd ''BOX'' (0, 0) (-1, -1) [Num 1, Colour black]),
      Some (Cmd ''INNERGRID'' (0, 0) (-1, -1) [Num 0.25, Colour black]),
      (if 1 < length (voci pos) then Some (Cmd ''SPAN'' (0, 1) (0, -2) []) else None),
      Some (Cmd ''SPAN'' (1, -1) (5, -1) []),
      Some (Cmd ''LINEABOVE'' (0, -1) (-1, -1) [Num 1, Colour black])]"

definition colWidths_posizione :: "real list" where
  "colWidths_posizione =
     [1 * cm, 8.5 * cm, 0.8 * cm, 1.2 * cm, 1.2 * cm, 2.65 * cm, 2.65 * cm]"

definition tabella_posizione :: "Posizione \<Rightarrow> py_error + flowable" where
  "tabella_posizione pos =
     Table_setStyle (table_data pos) colWidths_posizione (Some 1) (stile_posizione pos)"

text \<open>
  The loop \<^verbatim>\<open>for pos in preventivo.posizioni\<close> on the element list and the running
  subtotal. The subtotal is increased before the table of the position is built; an
  exception from building the table ends the loop and the function.
\<close>

fun posizioni_loop ::
  "Posizione list \<Rightarrow> flowable list \<times> real \<Rightarrow> py_error + flowable list \<times> real"
where
  "posizioni_loop [] st = Inr st"
| "posizioni_loop (pos # rest) (elements, subtotale_merce) =
     and_then (tabella_posizione pos)
       (\<lambda>table.
          posizioni_loop rest
            (elements @ [table, Spacer 1 (0.5 * cm)],
             subtotale_merce + totale_posizione pos))"

text \<open>
  Rows and columns that a span command covers in a table of \<open>nrows\<close> rows and
  \<open>ncols\<close> columns, with negative coordinates resolved from the end.
\<close>

definition resolve :: "nat \<Rightarrow> int \<Rightarrow> int" where
  "resolve n i = (if i < 0 then int n + i else i)"

fun span_rows :: "nat \<Rightarrow> style_cmd \<Rightarrow> int list" where
  "span_rows nrows (Cmd name (sc, sr) (ec, er) args) = [resolve nrows sr ..resolve nrows er]"

subsection \<open>Final totals, signature and general conditions\<close>

text \<open>The three assignments under \<^verbatim>\<open>Totali finali\<close>: taxable amount, tax, grand total.\<close>

definition totali_finali :: "real \<Rightarrow> real \<Rightarrow> real \<times> real \<times> real" where
  "totali_finali subtotale_merce iva_pct =
     (let imponibile = subtotale_merce;
          iva = imponibile * (iva_pct / 100);
          totale_finale = imponibile + iva
      in (imponibile, iva, totale_finale))"

definition summary_table :: "real \<Rightarrow> Preventivo \<Rightarrow> py_error + flowable" where
  "summary_table subtotale_merce preventivo =
     (let (imponibile, iva, totale_finale) =
            totali_finali subtotale_merce (iva_percentuale preventivo)
      in Table_setStyle
           [[Flow (Paragraph ''Imponibile'' (styles ''TotalsLabel'')),
             Flow (Paragraph (formatta_euro imponibile) (styles ''TotalsValue''))],
            [Flow (Paragraph
                     (''IVA '' @ py_format_f False 0 (iva_percentuale preventivo) @ ''%'')
                     (styles ''TotalsLabel'')),
             Flow (Paragraph (formatta_euro iva) (styles ''TotalsValue''))],
            [Flow (Paragraph ''<b>Totale Preventivo</b>'' (styles ''TotalsLabel'')),
             Flow (Paragraph (''<b>'' @ formatta_euro totale_finale @ ''</b>'')
                     (styles ''TotalsValue''))]]
           [14 * cm, 4 * cm] None
           [Some (Cmd ''VALIGN'' (0, 0) (-1, -1) [Text ''MIDDLE'']),
            Some (Cmd ''LINEBELOW'' (0, 0) (-1, 1) [Num 0.5, Colour grey]),
            Some (Cmd ''LINEABOVE'' (0, 2) (-1, 2) [Num 1, Colour black]),
            Some (Cmd ''BOTTOMPADDING'' (0, 0) (-1, -1) [Num 5]),
            Some (Cmd ''TOPPADDING'' (0, 0) (-1, -1) [Num 5])])"

definition signature_line :: "py_error + flowable" where
  "signature_line =
     Table_setStyle [[Str []]] [8 * cm] None
       [Some (Cmd ''LINEBELOW'' (0, 0) (0, 0) [Num 1, Colour black]),
        Some (Cmd ''ALIGN'' (0, 0) (-1, -1) [Text ''CENTER''])]"

definition legal_elements :: "flowable list" where
  "legal_elements =
     [Paragraph ''Condizioni Generali'' (styles ''LegalTitle''),
      Paragraph
        (''<b>Validit'' @ a_grave @ '' dell'' @ [CHR 0x27] @ ''offerta:</b> La presente offerta ''
         @ e_grave @ '' valida per 30 giorni dalla data di emissione.'')
        (styles ''LegalBody''),
      Paragraph
        (''<b>Condizioni di pagamento:</b> Le modalit'' @ a_grave
         @ '' di pagamento saranno concordate in fase di contratto definitivo.'')
        (styles ''LegalBody''),
      Paragraph
        (''<b>Tempi di consegna:</b> I tempi di consegna sono indicativi e verranno ''
         @ ''confermati al momento dell'' @ [CHR 0x27] @ ''ordine definitivo.'')
        (styles ''LegalBody''),
      Paragraph
        (''<b>Note:</b> Eventuali opere non esplicitamente menzionate in questo ''
         @ ''preventivo sono da considerarsi escluse.'')
        (styles ''LegalBody''),
      Spacer 1 (1 * cm),
      Paragraph ''Trattamento dei dati personali'' (styles ''LegalTitle''),
      Paragraph
        (''Ai sensi del Reg. UE n. 679/2016 (GDPR), i dati personali forniti saranno ''
         @ ''trattati per le finalit'' @ a_grave @ '' connesse all'' @ [CHR 0x27]
         @ ''esecuzione del presente rapporto pre-contrattuale e contrattuale.'')
        (styles ''LegalBody'')]"

subsection \<open>The whole element list\<close>

text \<open>
  Everything in \<^verbatim>\<open>genera_pdf_preventivo\<close> after the logo has been chosen, in the order
  of the source: header, information block, introduction, position tables, totals,
  signature, page break, general conditions. The result is the list passed to
  \<^verbatim>\<open>doc.build\<close>, or the exception that ended the function.
\<close>

definition elementi_con_logo :: "flowable \<Rightarrow> Preventivo \<Rightarrow> py_error + flowable list" where
  "elementi_con_logo logo preventivo =
     and_then (header_table logo preventivo) (\<lambda>header.
     and_then (info_table preventivo) (\<lambda>info.
     and_then
       (posizioni_loop (posizioni preventivo)
          ([header, Spacer 1 (1 * cm), info, Spacer 1 (1 * cm),
            testo_introduttivo, Spacer 1 (0.5 * cm)], 0))
       (\<lambda>(elements, subtotale_merce).
     and_then (summary_table subtotale_merce preventivo) (\<lambda>summary.
     and_then signature_line (\<lambda>signature.
       Inr (elements
            @ [summary, Spacer 1 (2 * cm),
               Paragraph ''Timbro e Firma del Cliente per Accettazione''
                 (styles ''NormalCenter''),
               Spacer 1 (0.5 * cm), signature, PageBreak]
            @ legal_elements))))))"

definition genera_pdf_preventivo ::
  "reportlab \<Rightarrow> fetch_result \<Rightarrow> Preventivo \<Rightarrow> py_error + flowable list"
where
  "genera_pdf_preventivo rl fetch preventivo =
     and_then (logo_element rl fetch preventivo)
       (\<lambda>logo. elementi_con_logo logo preventivo)"

section \<open>The page-numbering canvas\<close>

text \<open>
  \<^verbatim>\<open>PageNumCanvas\<close> extends reportlab's \<^verbatim>\<open>Canvas\<close>. Of the attributes of a canvas the
  model keeps the page number \<^verbatim>\<open>_pageNumber\<close>, the operators \<^verbatim>\<open>_code\<close> of the page being
  drawn, the list \<^verbatim>\<open>pages\<close> of the subclass, and the pages handed to the PDF document
  \<^verbatim>\<open>_doc\<close>. A saved attribute dictionary \<^verbatim>\<open>dict(self.__dict__)\<close> is the pair of page
  number and operators: its entries for \<^verbatim>\<open>pages\<close> and \<^verbatim>\<open>_doc\<close> refer to the same list
  and document as the canvas does, so restoring them changes nothing.
\<close>

datatype pdf_op =
    Content string
  | SetFont string real
  | DrawRightString real real string

record canvas =
  pageNumber :: nat
  code :: "pdf_op list"
  pages :: "(nat \<times> pdf_op list) list"
  doc :: "pdf_op list list"

subsection \<open>The base class, as reportlab defines it\<close>

definition Canvas_init :: canvas where
  "Canvas_init = \<lparr>pageNumber = 1, code = [], pages = [], doc = []\<rparr>"

definition draw :: "pdf_op \<Rightarrow> canvas \<Rightarrow> canvas" where
  "draw op c = c\<lparr>code := code c @ [op]\<rparr>"

text \<open>\<^verbatim>\<open>_startPage\<close>: the next page number and an empty operator list.\<close>

definition startPage :: "canvas \<Rightarrow> canvas" where
  "startPage c = c\<lparr>pageNumber := pageNumber c + 1, code := []\<rparr>"

text \<open>\<^verbatim>\<open>Canvas.showPage\<close>: the page drawn so far goes to the document.\<close>

definition Canvas_showPage :: "canvas \<Rightarrow> canvas" where
  "Canvas_showPage c = startPage (c\<lparr>doc := doc c @ [code c]\<rparr>)"

subsection \<open>The subclass\<close>

definition showPage :: "canvas \<Rightarrow> canvas" where
  "showPage c = startPage (c\<lparr>pages := pages c @ [(pageNumber c, code c)]\<rparr>)"

text \<open>\<^verbatim>\<open>self.__dict__.update(page)\<close>.\<close>

definition update :: "nat \<times> pdf_op list \<Rightarrow> canvas \<Rightarrow> canvas" where
  "update page c = c\<lparr>pageNumber := fst page, code := snd page\<rparr>"

definition draw_page_number :: "nat \<Rightarrow> canvas \<Rightarrow> canvas" where
  "draw_page_number page_count c =
     draw (DrawRightString (20 * cm) (1 * cm)
             (''Pagina '' @ str_nat (pageNumber c) @ '' di '' @ str_nat page_count))
       (draw (SetFont ''Helvetica'' 8) c)"

text \<open>The loop \<^verbatim>\<open>for page in self.pages\<close> of \<^verbatim>\<open>save\<close>.\<close>

fun replay :: "nat \<Rightarrow> (nat \<times> pdf_op list) list \<Rightarrow> canvas \<Rightarrow> canvas" where
  "replay page_count [] c = c"
| "replay page_count (page # rest) c =
     replay page_count rest (Canvas_showPage (draw_page_number page_count (update page c)))"

text \<open>
  \<^verbatim>\<open>Canvas.save\<close> calls \<^verbatim>\<open>self.showPage()\<close>, which is the method of the subclass, when
  operators are pending, and then writes the document out.
\<close>

definition Canvas_save :: "canvas \<Rightarrow> canvas" where
  "Canvas_save c = (if code c \<noteq> [] then showPage c else c)"

definition save :: "canvas \<Rightarrow> canvas" where
  "save c = Canvas_save (replay (length (pages c)) (pages c) c)"

subsection \<open>Layout\<close>

text \<open>
  What \<^verbatim>\<open>doc.build\<close> does to the canvas while it lays the content out: it draws, and at
  the end of each page it calls \<^verbatim>\<open>showPage\<close>. When layout is complete it calls \<^verbatim>\<open>save\<close>.
\<close>

datatype event = Draw pdf_op | ShowPage

fun layout :: "event list \<Rightarrow> canvas \<Rightarrow> canvas" where
  "layout [] c = c"
| "layout (Draw op # es) c = layout es (draw op c)"
| "layout (ShowPage # es) c = layout es (showPage c)"

text \<open>
  The pages that a sequence of layout events draws, as lists of operators: a page
  boundary closes the page holding the operators drawn since the previous boundary
  (\<open>cur\<close> holds those of the page being drawn). Operators after the last boundary
  belong to no closed page.
\<close>

fun pagine :: "event list \<Rightarrow> pdf_op list \<Rightarrow> pdf_op list list" where
  "pagine [] cur = []"
| "pagine (Draw op # es) cur = pagine es (cur @ [op])"
| "pagine (ShowPage # es) cur = cur # pagine es []"

text \<open>The page as emitted: its recorded operators followed by the page-number stamp.\<close>

definition stamped :: "nat \<Rightarrow> nat \<times> pdf_op list \<Rightarrow> pdf_op list" where
  "stamped page_count page =
     snd page
     @ [SetFont ''Helvetica'' 8,
        DrawRightString (20 * cm) (1 * cm)
          (''Pagina '' @ str_nat (fst page) @ '' di '' @ str_nat page_count)]"

section \<open>Example inputs\<close>

definition voce_pz_senza_pezzi :: VocePreventivo where
  "voce_pz_senza_pezzi =
     \<lparr>descrizione = ''Maniglie'', pz = None, qta = Some 3, um = Some ''pz'',
      prezzo = Some 10\<rparr>"

definition voce_pz_a_corpo :: VocePreventivo where
  "voce_pz_a_corpo =
     \<lparr>descrizione = ''Porte interne'', pz = Some 3, qta = Some 1, um = Some ''pz a corpo'',
      prezzo = Some 10\<rparr>"

definition voce_a_corpo :: VocePreventivo where
  "voce_a_corpo =
     \<lparr>descrizione = ''Maggiorazione tipologia villa singola'', pz = Some 1, qta = Some 7,
      um = Some ''A Corpo'', prezzo = Some 50000\<rparr>"

definition voce_mq :: "real \<Rightarrow> real \<Rightarrow> VocePreventivo" where
  "voce_mq p q =
     \<lparr>descrizione = ''Costruzione base edificio residenziale'', pz = None, qta = Some q,
      um = Some ''mq'', prezzo = Some p\<rparr>"


text \<open>The data of \<^verbatim>\<open>genera_esempio\<close>: one position of six lines; the date is today's.\<close>

definition esempio :: "string \<Rightarrow> Preventivo" where
  "esempio oggi =
     \<lparr>prev_numero = ''1017/2025'',
      data = oggi,
      cliente =
        \<lparr>nome = ''MARIO ROSSI'', indirizzo = ''VIA GARIBALDI 45'',
         citta = ''20121 Milano (MI)'',
         cantiere = ''VIA GARIBALDI 45 - RISTRUTTURAZIONE APPARTAMENTO''\<rparr>,
      azienda = DatiAzienda_default,
      posizioni =
        [\<lparr>numero = 1,
          voci =
            [\<lparr>descrizione = ''Costruzione base edificio residenziale'', pz = None,
              qta = Some 300, um = Some ''mq'', prezzo = Some 800\<rparr>,
             \<lparr>descrizione = ''Maggiorazione tipologia villa singola'', pz = Some 1,
              qta = Some 1, um = Some ''a corpo'', prezzo = Some 50000\<rparr>,
             \<lparr>descrizione = ''Maggiorazione 3 camere da letto e 2 bagni'', pz = Some 1,
              qta = Some 1, um = Some ''a corpo'', prezzo = Some 25000\<rparr>,
             \<lparr>descrizione = ''Maggiorazione stile moderno'', pz = Some 1,
              qta = Some 1, um = Some ''a corpo'', prezzo = Some 20000\<rparr>,
             \<lparr>descrizione = ''Impianto fotovoltaico 6kW'', pz = Some 1,
              qta = Some 1, um = Some ''a corpo'', prezzo = Some 15000\<rparr>,
             \<lparr>descrizione = ''Riscaldamento a pavimento'', pz = None,
              qta = Some 300, um = Some ''mq'', prezzo = Some 45\<rparr>]\<rparr>],
      iva_percentuale = 22\<rparr>"

text \<open>
  The quotation that the landing page of the service shows as the JSON to send: one
  position with a single line.
\<close>

definition posizione_una_voce :: Posizione where
  "posizione_una_voce =
     \<lparr>numero = 1,
      voci =
        [\<lparr>descrizione = ''Costruzione edificio residenziale'', pz = Some 1,
          qta = Some 1, um = Some ''a corpo'', prezzo = Some 200000\<rparr>]\<rparr>"

definition preventivo_una_voce :: Preventivo where
  "preventivo_una_voce =
     \<lparr>prev_numero = ''1017/2025'',
      data = ''30/07/2025'',
      cliente =
        \<lparr>nome = ''MARIO ROSSI'', indirizzo = ''VIA ROMA 123'',
         citta = ''20121 Milano (MI)'', cantiere = ''VIA ROMA 123''\<rparr>,
      azienda = DatiAzienda_default,
      posizioni = [posizione_una_voce],
      iva_percentuale = 22\<rparr>"




text \<open>
  The example of \<^verbatim>\<open>genera_esempio\<close> under a company name that is markup on its own:
  a whole paragraph element.
\<close>

definition preventivo_nome_markup :: Preventivo where
  "preventivo_nome_markup =
     (esempio ''03/11/2026'')
       \<lparr>azienda := DatiAzienda_default\<lparr>az_nome := ''<para>AbitaLab</para>''\<rparr>\<rparr>"

text \<open>
  The library on the values of this example: the parser rejects a paragraph element
  inside a bold element, and the image reader rejects bytes that do not begin with the
  PNG signature.
\<close>

definition png_signature :: string where
  "png_signature = [CHR 0x89] @ ''PNG''"

definition libreria :: reportlab where
  "libreria =
     \<lparr>parser_rejects = (\<lambda>text. str_in ''<b><para>'' text),
      image_rejects = (\<lambda>content. \<not> startswith content png_signature)\<rparr>"

section \<open>Facts about the loops and the tables\<close>


lemma voci_loop_righe:
  "length (fst (voci_loop pos vs (td, t, f))) = length td + length vs"
  by (induction vs arbitrary: td t f) simp_all

lemma those_stile_molte:
  "1 < length (voci pos) \<Longrightarrow> those (stile_posizione pos) \<noteq> None"
  by (simp add: stile_posizione_def)

lemma those_stile_una:
  "\<not> 1 < length (voci pos) \<Longrightarrow> those (stile_posizione pos) = None"
  by (simp add: stile_posizione_def)

lemma tabella_posizione_una:
  "\<not> 1 < length (voci pos) \<Longrightarrow> tabella_posizione pos = Inl TypeError"
  by (simp add: tabella_posizione_def Table_setStyle_def those_stile_una)

lemma tabella_posizione_molte:
  "1 < length (voci pos) \<Longrightarrow> \<exists>table. tabella_posizione pos = Inr table"
  using those_stile_molte [of pos]
  by (auto simp: tabella_posizione_def Table_setStyle_def split: option.splits)


lemma posizioni_loop_ok:
  "\<forall>pos \<in> set ps. 1 < length (voci pos) \<Longrightarrow> \<exists>r. posizioni_loop ps st = Inr r"
proof (induction ps arbitrary: st)
  case Nil
  then show ?case by simp
next
  case (Cons pos ps)
  obtain els s where st: "st = (els, s)" by (cases st)
  from Cons.prems obtain table where t: "tabella_posizione pos = Inr table"
    using tabella_posizione_molte [of pos] by auto
  from Cons.prems have "\<forall>pos \<in> set ps. 1 < length (voci pos)" by simp
  from Cons.IH [OF this] show ?case by (simp add: st t and_then_def)
qed

lemma posizioni_loop_raise:
  "\<exists>pos \<in> set ps. \<not> 1 < length (voci pos) \<Longrightarrow> posizioni_loop ps st = Inl TypeError"
proof (induction ps arbitrary: st)
  case Nil
  then show ?case by simp
next
  case (Cons pos ps)
  obtain els s where st: "st = (els, s)" by (cases st)
  show ?case
  proof (cases "1 < length (voci pos)")
    case False
    then show ?thesis by (simp add: st and_then_def tabella_posizione_una)
  next
    case True
    with Cons.prems have "\<exists>pos \<in> set ps. \<not> 1 < length (voci pos)" by auto
    from Cons.IH [OF this] True show ?thesis
      using tabella_posizione_molte [of pos] by (auto simp: st and_then_def)
  qed
qed


lemma header_table_ok:
  "\<exists>cs. header_table logo preventivo
          = Inr (Table [[Flow logo, Flows (company_details preventivo)]] [7 * cm, 11 * cm] None cs)"
  by (simp add: header_table_def Table_setStyle_def)

lemma info_table_ok: "\<exists>t. info_table preventivo = Inr t"
  by (simp add: info_table_def Table_setStyle_def)

lemma summary_table_ok: "\<exists>t. summary_table s preventivo = Inr t"
  by (simp add: summary_table_def totali_finali_def Let_def Table_setStyle_def)

lemma signature_line_ok: "\<exists>t. signature_line = Inr t"
  by (simp add: signature_line_def Table_setStyle_def)

lemma posizioni_loop_prefix:
  "posizioni_loop ps (els, s)
     = (case posizioni_loop ps ([], s) of
          Inl e \<Rightarrow> Inl e
        | Inr (new, s') \<Rightarrow> Inr (els @ new, s'))"
proof (induction ps arbitrary: els s)
  case Nil
  then show ?case by simp
next
  case (Cons pos ps)
  show ?case
  proof (cases "tabella_posizione pos")
    case (Inl e)
    then show ?thesis by (simp add: and_then_def)
  next
    case (Inr table)
    let ?s = "s + totale_posizione pos"
    let ?two = "[table, Spacer 1 (0.5 * cm)]"
    have l: "posizioni_loop (pos # ps) (els, s) = posizioni_loop ps (els @ ?two, ?s)"
      by (simp add: and_then_def Inr)
    have r: "posizioni_loop (pos # ps) ([], s) = posizioni_loop ps (?two, ?s)"
      by (simp add: and_then_def Inr)
    show ?thesis
      unfolding l r
      by (subst Cons.IH [of "els @ ?two"], subst Cons.IH [of ?two])
         (simp split: sum.splits prod.splits)
  qed
qed

text \<open>What follows the header in the element list, or the exception.\<close>

lemma elementi_con_logo_resto:
  "\<exists>resto. \<forall>logo. \<exists>header.
     header_table logo preventivo = Inr header
     \<and> elementi_con_logo logo preventivo = map_sum id (\<lambda>r. header # r) resto"
proof -
  obtain info where i: "info_table preventivo = Inr info"
    using info_table_ok by blast
  obtain sig where sg: "signature_line = Inr sig"
    using signature_line_ok by blast
  let ?after = "[Spacer 1 (1 * cm), info, Spacer 1 (1 * cm), testo_introduttivo, Spacer 1 (0.5 * cm)]"
  let ?tail = "\<lambda>summary. [summary, Spacer 1 (2 * cm),
               Paragraph ''Timbro e Firma del Cliente per Accettazione''
                 (styles ''NormalCenter''),
               Spacer 1 (0.5 * cm), sig, PageBreak] @ legal_elements"
  let ?resto = "case posizioni_loop (posizioni preventivo) ([], 0) of
                  Inl e \<Rightarrow> Inl e
                | Inr (e, s) \<Rightarrow>
                    (case summary_table s preventivo of
                       Inl x \<Rightarrow> Inl x
                     | Inr summary \<Rightarrow> Inr (?after @ e @ ?tail summary))"
  have "\<exists>header. header_table logo preventivo = Inr header
          \<and> elementi_con_logo logo preventivo = map_sum id (\<lambda>r. header # r) ?resto" for logo
  proof -
    obtain header where h: "header_table logo preventivo = Inr header"
      using header_table_ok [of logo preventivo] by blast
    have p: "posizioni_loop (posizioni preventivo) (header # ?after, 0)
               = (case posizioni_loop (posizioni preventivo) ([], 0) of
                    Inl e \<Rightarrow> Inl e
                  | Inr (new, s') \<Rightarrow> Inr ((header # ?after) @ new, s'))"
      by (rule posizioni_loop_prefix)
    have "elementi_con_logo logo preventivo = map_sum id (\<lambda>r. header # r) ?resto"
      unfolding elementi_con_logo_def and_then_def h i sg
      using p
      by (auto split: sum.splits prod.splits)
    with h show ?thesis by blast
  qed
  then show ?thesis by blast
qed



lemma genera_una_voce_raises:
  assumes "\<exists>pos \<in> set (posizioni preventivo). \<not> 1 < length (voci pos)"
  shows "elementi_con_logo logo preventivo = Inl TypeError"
proof -
  obtain header where h: "header_table logo preventivo = Inr header"
    using header_table_ok [of logo preventivo] by blast
  obtain info where i: "info_table preventivo = Inr info"
    using info_table_ok by blast
  show ?thesis
    unfolding elementi_con_logo_def and_then_def h i
    by (simp add: posizioni_loop_raise [OF assms])
qed

lemma genera_molte_voci_ok:
  assumes "\<forall>pos \<in> set (posizioni preventivo). 1 < length (voci pos)"
  shows "\<exists>cs rest. elementi_con_logo logo preventivo
           = Inr (Table [[Flow logo, Flows (company_details preventivo)]]
                    [7 * cm, 11 * cm] None cs # rest)"
proof -
  obtain cs where h: "header_table logo preventivo
      = Inr (Table [[Flow logo, Flows (company_details preventivo)]] [7 * cm, 11 * cm] None cs)"
    using header_table_ok [of logo preventivo] by blast
  obtain info where i: "info_table preventivo = Inr info"
    using info_table_ok by blast
  obtain sig where sg: "signature_line = Inr sig"
    using signature_line_ok by blast
  obtain els s where p: "posizioni_loop (posizioni preventivo) ([], 0) = Inr (els, s)"
    using posizioni_loop_ok [OF assms, of "([], 0)"] by auto
  obtain summary where su: "summary_table s preventivo = Inr summary"
    using summary_table_ok by blast
  show ?thesis
    unfolding elementi_con_logo_def and_then_def h i sg
    by (subst posizioni_loop_prefix) (simp add: p su)
qed

lemma genera_resto_uguale:
  "map_sum id tl (elementi_con_logo logo preventivo)
     = map_sum id tl (elementi_con_logo logo' preventivo)"
proof -
  obtain resto where r: "\<forall>l. \<exists>header. header_table l preventivo = Inr header
       \<and> elementi_con_logo l preventivo = map_sum id (\<lambda>r. header # r) resto"
    using elementi_con_logo_resto [of preventivo] by blast
  from r obtain h where "elementi_con_logo logo preventivo = map_sum id (\<lambda>r. h # r) resto"
    by blast
  moreover from r obtain h' where
    "elementi_con_logo logo' preventivo = map_sum id (\<lambda>r. h' # r) resto"
    by blast
  ultimately show ?thesis by (cases resto) simp_all
qed

text \<open>
  A position of more than one line: the table is built, its style has the span of the
  position label, and the span covers the rows of the lines, from row 1 to the row before
  the totals row. Whatever the number of lines, the other twelve commands are the same.
\<close>

lemma span_molte_voci:
  assumes "1 < length (voci pos)"
  shows "\<exists>cs. tabella_posizione pos = Inr (Table (table_data pos) colWidths_posizione (Some 1) cs)
           \<and> Cmd ''SPAN'' (0, 1) (0, -2) [] \<in> set cs
           \<and> span_rows (length (table_data pos)) (Cmd ''SPAN'' (0, 1) (0, -2) [])
               = [1..int (length (voci pos))]"
proof -
  have "length (table_data pos) = length (voci pos) + 2"
    by (simp add: table_data_def righe_posizione_def voci_loop_righe)
  then have "span_rows (length (table_data pos)) (Cmd ''SPAN'' (0, 1) (0, -2) [])
               = [1..int (length (voci pos))]"
    by (simp add: resolve_def)
  then show ?thesis using assms
    by (simp add: tabella_posizione_def Table_setStyle_def stile_posizione_def)
qed

lemma span_altri_comandi:
  "take 10 (stile_posizione pos) @ drop 11 (stile_posizione pos)
     = take 10 (stile_posizione pos') @ drop 11 (stile_posizione pos')"
  by (simp add: stile_posizione_def)

text \<open>The logo block when the company name holds no markup: it never raises.\<close>

lemma logo_fallback_semplice:
  "senza_markup (az_nome (azienda preventivo)) \<Longrightarrow>
   logo_fallback rl preventivo
     = Inr (Paragraph (''<b>'' @ az_nome (azienda preventivo) @ ''</b>'')
              (ParagraphStyle ''LogoFallback'' [fontSize 16, alignment TA_CENTER]))"
  by (simp add: logo_fallback_def)

lemma logo_element_semplice:
  "senza_markup (az_nome (azienda preventivo)) \<Longrightarrow>
   \<exists>logo. logo_element rl fetch preventivo = Inr logo"
  by (simp add: logo_element_def logo_try_def logo_fallback_semplice
      split: fetch_result.splits sum.splits)

lemma logo_element_fallito:
  assumes "\<And>content. fetch \<noteq> Response 200 content"
  shows "logo_element rl fetch preventivo = logo_fallback rl preventivo"
  using assms
  by (cases fetch) (auto simp: logo_element_def logo_try_def split: sum.splits)


section \<open>Facts about digits and separators\<close>

lemma digit_char_in: "digit_char d \<in> set ''0123456789''"
  unfolding digit_char_def by (rule nth_mem) simp

lemma digit_char_mod: "digit_char (d mod 10) = digit_char d"
  by (simp add: digit_char_def)

lemma str_nat_digits: "set (str_nat n) \<subseteq> set ''0123456789''"
proof (induction n rule: str_nat.induct)
  case (1 n)
  show ?case
  proof (cases "n < 10")
    case True
    then show ?thesis using digit_char_in [of n] by (subst str_nat.simps) simp
  next
    case False
    then show ?thesis using 1 digit_char_in [of "n mod 10"]
      by (subst str_nat.simps) simp
  qed
qed

lemma map_group3: "map f (group3 sep ds) = group3 (f sep) (map f ds)"
proof (induction sep ds rule: group3.induct)
  case (1 sep ds)
  show ?case
  proof (cases "length ds \<le> 3")
    case True
    then show ?thesis by (simp add: group3.simps [of _ ds] group3.simps [of _ "map f ds"])
  next
    case False
    then show ?thesis using 1
      by (simp add: group3.simps [of _ ds] group3.simps [of _ "map f ds"] take_map drop_map)
  qed
qed

lemma replace_chain:
  "replace_char CHR ''X'' CHR ''.''
     (replace_char CHR ''.'' CHR '','' (replace_char CHR '','' CHR ''X'' s))
   = map scambia s"
  by (simp add: replace_char_def scambia_def)

lemma scambia_digits: "set s \<subseteq> set ''0123456789'' \<Longrightarrow> map scambia s = s"
  by (induction s) (auto simp: scambia_def)

lemma scambia_euro: "map scambia ('' '' @ euro_sign) = '' '' @ euro_sign"
  by (simp add: scambia_def euro_sign_def)

lemma tens_digit: "(n::nat) mod 100 div 10 = n div 10 mod 10"
proof -
  have "n mod (10 * 10) = 10 * (n div 10 mod 10) + n mod 10" by (rule mod_mult2_eq)
  then have "n mod 100 div 10 = (10 * (n div 10 mod 10) + n mod 10) div 10" by simp
  also have "\<dots> = n div 10 mod 10" by simp
  finally show ?thesis .
qed

lemma units_digit: "(n::nat) mod 100 mod 10 = n mod 10"
  by (rule mod_mod_cancel) simp

lemma zfill2:
  assumes "m < 100"
  shows "zfill 2 (str_nat m) = [digit_char (m div 10), digit_char m]"
proof (cases "m < 10")
  case True
  then have "str_nat m = [digit_char m]" by (subst str_nat.simps) simp
  moreover from True have "digit_char (m div 10) = CHR ''0''" by (simp add: digit_char_def)
  ultimately show ?thesis by (simp add: zfill_def)
next
  case False
  with assms have "m div 10 < 10" by simp
  then have "str_nat (m div 10) = [digit_char (m div 10)]" by (subst str_nat.simps) simp
  with False have "str_nat m = [digit_char (m div 10), digit_char (m mod 10)]"
    by (subst str_nat.simps) simp
  then show ?thesis by (simp add: zfill_def digit_char_mod)
qed

lemma formatta_euro_italiano: "formatta_euro v = formato_italiano v"
proof -
  define n where "n = nat (round_half_even (\<bar>v\<bar> * 10 ^ 2))"
  have n: "n = centesimi v" by (simp add: n_def centesimi_def)
  have ip: "map scambia (group3 CHR '','' (str_nat (n div 100)))
              = group3 CHR ''.'' (str_nat (n div 100))"
    by (simp add: map_group3 scambia_digits [OF str_nat_digits]) (simp add: scambia_def)
  have fp: "map scambia (zfill 2 (str_nat (n mod 100)))
              = [digit_char (n div 10 mod 10), digit_char (n mod 10)]"
  proof -
    have "zfill 2 (str_nat (n mod 100)) = [digit_char (n mod 100 div 10), digit_char (n mod 100)]"
      by (rule zfill2) simp
    moreover have "digit_char (n mod 100) = digit_char (n mod 10)"
      using digit_char_mod [of "n mod 100"] by (simp only: units_digit)
    ultimately have "zfill 2 (str_nat (n mod 100))
                       = [digit_char (n div 10 mod 10), digit_char (n mod 10)]"
      by (simp add: tens_digit)
    moreover have "set [digit_char (n div 10 mod 10), digit_char (n mod 10)]
                     \<subseteq> set ''0123456789''"
      using digit_char_in [of "n div 10 mod 10"] digit_char_in [of "n mod 10"] by simp
    ultimately show ?thesis by (simp only: scambia_digits)
  qed
  have sg: "map scambia (if v < 0 then ''-'' else []) = (if v < 0 then ''-'' else [])"
    by (simp add: scambia_def)
  have "formatta_euro v = map scambia (py_format_f True 2 v @ '' '' @ euro_sign)"
    by (simp only: formatta_euro_def replace_chain)
  also have "py_format_f True 2 v
               = (if v < 0 then ''-'' else []) @ group3 CHR '','' (str_nat (n div 100))
                 @ ''.'' @ zfill 2 (str_nat (n mod 100))"
    by (simp add: py_format_f_def n_def Let_def)
  finally have "formatta_euro v
                  = (if v < 0 then ''-'' else []) @ group3 CHR ''.'' (str_nat (n div 100))
                    @ '','' @ [digit_char (n div 10 mod 10), digit_char (n mod 10)]
                    @ '' '' @ euro_sign"
    using ip fp sg scambia_euro by (simp only: map_append) (simp add: scambia_def)
  then show ?thesis by (simp add: formato_italiano_def n)
qed

section \<open>Facts about the canvas\<close>

lemma replay_doc: "doc (replay n ps c) = doc c @ map (stamped n) ps"
proof (induction ps arbitrary: c)
  case Nil
  then show ?case by simp
next
  case (Cons page ps)
  have "doc (Canvas_showPage (draw_page_number n (update page c))) = doc c @ [stamped n page]"
    by (simp add: Canvas_showPage_def startPage_def draw_page_number_def draw_def update_def
        stamped_def)
  then show ?case by (simp add: Cons.IH)
qed

lemma replay_pages: "pages (replay n ps c) = pages c"
proof (induction ps arbitrary: c)
  case Nil
  then show ?case by simp
next
  case (Cons page ps)
  have "pages (Canvas_showPage (draw_page_number n (update page c))) = pages c"
    by (simp add: Canvas_showPage_def startPage_def draw_page_number_def draw_def update_def)
  then show ?case by (simp add: Cons.IH)
qed

lemma Canvas_save_doc: "doc (Canvas_save c) = doc c"
  by (simp add: Canvas_save_def showPage_def startPage_def)

lemma save_doc: "doc (save c) = doc c @ map (stamped (length (pages c))) (pages c)"
  by (simp add: save_def Canvas_save_doc replay_doc)

lemma layout_doc: "doc (layout es c) = doc c"
  by (induction es c rule: layout.induct) (simp_all add: draw_def showPage_def startPage_def)

lemma layout_numbers:
  "map fst (pages (layout es c))
     = map fst (pages c) @ [pageNumber c ..< pageNumber c + count_list es ShowPage]"
proof (induction es c rule: layout.induct)
  case (1 c)
  then show ?case by simp
next
  case (2 op es c)
  then show ?case by (simp add: draw_def)
next
  case (3 es c)
  have "[pageNumber c ..< pageNumber c + Suc (count_list es ShowPage)]
          = pageNumber c # [Suc (pageNumber c) ..< Suc (pageNumber c) + count_list es ShowPage]"
    by (simp add: upt_rec)
  with 3 show ?case by (simp add: showPage_def startPage_def)
qed

lemma layout_content:
  "concat (map snd (pages (layout es c))) @ code (layout es c)
     = concat (map snd (pages c)) @ code c @ concat (map (\<lambda>e. case e of Draw op \<Rightarrow> [op] | ShowPage \<Rightarrow> []) es)"
  by (induction es c rule: layout.induct) (simp_all add: draw_def showPage_def startPage_def)

lemma length_pagine: "length (pagine es cur) = count_list es ShowPage"
  by (induction es cur rule: pagine.induct) simp_all

lemma layout_pages:
  "pages (layout es c)
     = pages c
       @ zip [pageNumber c ..< pageNumber c + count_list es ShowPage] (pagine es (code c))"
proof (induction es c rule: layout.induct)
  case (1 c)
  then show ?case by simp
next
  case (2 op es c)
  then show ?case by (simp add: draw_def)
next
  case (3 es c)
  have "[pageNumber c ..< pageNumber c + Suc (count_list es ShowPage)]
          = pageNumber c # [Suc (pageNumber c) ..< Suc (pageNumber c) + count_list es ShowPage]"
    by (simp add: upt_rec)
  with 3 show ?case by (simp add: showPage_def startPage_def)
qed


section \<open>Line totals\<close>

text \<open>
  C9. A line without a price totals exactly 0, whatever its piece count, quantity and
  unit of measure are.
\<close>

theorem totale_senza_prezzo:
  "prezzo voce = None \<Longrightarrow> calcola_totale_voce voce = 0"
  by (simp add: calcola_totale_voce_def)

theorem totale_senza_prezzo_witness:
  "prezzo \<lparr>descrizione = ''Posa'', pz = Some 4, qta = Some 2, um = Some ''pz'',
           prezzo = None\<rparr> = None
   \<and> calcola_totale_voce \<lparr>descrizione = ''Posa'', pz = Some 4, qta = Some 2,
        um = Some ''pz'', prezzo = None\<rparr> = 0"
  using totale_senza_prezzo
    [of "\<lparr>descrizione = ''Posa'', pz = Some 4, qta = Some 2, um = Some ''pz'',
          prezzo = None\<rparr>"]
  by simp


text \<open>
  C1, as stated: a priced line whose unit of measure contains \<^verbatim>\<open>pz\<close>, without a piece
  count and with a quantity, would total round(price * quantity, 2). The line below has
  price 10 and quantity 3 and totals 10, not 30.
\<close>

theorem pz_senza_pezzi_counterexample:
  "prezzo voce_pz_senza_pezzi = Some 10
   \<and> um_contains ''pz'' voce_pz_senza_pezzi
   \<and> pz voce_pz_senza_pezzi = None
   \<and> qta voce_pz_senza_pezzi = Some 3
   \<and> calcola_totale_voce voce_pz_senza_pezzi = 10
   \<and> calcola_totale_voce voce_pz_senza_pezzi \<noteq> py_round (10 * 3) 2"
  by code_simp

text \<open>
  C1, amended: a priced line whose unit of measure contains \<^verbatim>\<open>pz\<close> and whose piece
  count is absent totals round(price, 2), the final fallback, whether or not a quantity
  is present: the quantity rule belongs to the \<^verbatim>\<open>else\<close> branch of the chain, which a
  \<^verbatim>\<open>pz\<close> line never enters.
\<close>

theorem pz_senza_pezzi_totale:
  assumes "prezzo voce = Some p" and "um_contains ''pz'' voce" and "pz voce = None"
  shows "calcola_totale_voce voce = py_round p 2"
  using assms by (simp add: calcola_totale_voce_def regola_um_def)

theorem pz_senza_pezzi_totale_witness:
  "prezzo voce_pz_senza_pezzi = Some 10
   \<and> um_contains ''pz'' voce_pz_senza_pezzi
   \<and> pz voce_pz_senza_pezzi = None
   \<and> calcola_totale_voce voce_pz_senza_pezzi = py_round 10 2"
proof -
  have p: "prezzo voce_pz_senza_pezzi = Some 10" by code_simp
  have u: "um_contains ''pz'' voce_pz_senza_pezzi" by code_simp
  have n: "pz voce_pz_senza_pezzi = None" by code_simp
  from pz_senza_pezzi_totale [OF p u n] p u n show ?thesis by simp
qed

text \<open>
  C2. A line with price and quantity whose unit of measure contains \<^verbatim>\<open>mq\<close> and neither
  \<^verbatim>\<open>pz\<close> nor \<^verbatim>\<open>corpo\<close>: when price > 10000 and quantity > 10 the total is
  round(price, 2), otherwise round(price * quantity, 2). Both comparisons are strict, so
  price 10000 or quantity 10 gives the per-unit total.
\<close>

theorem mq_totale:
  assumes "prezzo voce = Some p" and "qta voce = Some q"
    and "um_contains ''mq'' voce"
    and "\<not> um_contains ''pz'' voce" and "\<not> um_contains ''corpo'' voce"
  shows "calcola_totale_voce voce =
           (if 10000 < p \<and> 10 < q then py_round p 2 else py_round (p * q) 2)
         \<and> (p = 10000 \<or> q = 10 \<longrightarrow> calcola_totale_voce voce = py_round (p * q) 2)"
  using assms by (simp add: calcola_totale_voce_def regola_um_def)

text \<open>
  The instances of C2: price 12000 with quantity 15 totals 12000.00, price 800 with
  quantity 300 totals 240000.00, and at the boundaries price 10000 with quantity 15
  totals 150000.00 and price 12000 with quantity 10 totals 120000.00.
\<close>

theorem mq_totale_witness:
  "prezzo (voce_mq 12000 15) = Some 12000 \<and> qta (voce_mq 12000 15) = Some 15
   \<and> um_contains ''mq'' (voce_mq 12000 15)
   \<and> \<not> um_contains ''pz'' (voce_mq 12000 15)
   \<and> \<not> um_contains ''corpo'' (voce_mq 12000 15)
   \<and> calcola_totale_voce (voce_mq 12000 15) = 12000
   \<and> calcola_totale_voce (voce_mq 800 300) = 240000
   \<and> calcola_totale_voce (voce_mq 10000 15) = 150000
   \<and> calcola_totale_voce (voce_mq 12000 10) = 120000"
proof -
  have u: "um_contains ''mq'' (voce_mq p q)"
    "\<not> um_contains ''pz'' (voce_mq p q)" "\<not> um_contains ''corpo'' (voce_mq p q)"
    for p q
    by (simp_all add: voce_mq_def um_contains_def, code_simp+)
  have f: "prezzo (voce_mq p q) = Some p" "qta (voce_mq p q) = Some q" for p q
    by (simp_all add: voce_mq_def)
  have r: "py_round 12000 2 = 12000" "py_round (800 * 300) 2 = 240000"
    "py_round (10000 * 15) 2 = 150000" "py_round (12000 * 10) 2 = 120000"
    by code_simp+
  from mq_totale [OF f u, of 12000 15] mq_totale [OF f u, of 800 300]
    mq_totale [OF f u, of 10000 15] mq_totale [OF f u, of 12000 10] f u r
  show ?thesis by simp
qed

text \<open>
  C3, as stated: every priced line whose unit of measure contains \<^verbatim>\<open>corpo\<close> would
  total round(price, 2), also when the unit of measure contains \<^verbatim>\<open>pz\<close> as well. The
  line below has unit of measure \<^verbatim>\<open>pz a corpo\<close>, price 10 and piece count 3, and totals
  30, not 10.
\<close>

theorem corpo_counterexample:
  "prezzo voce_pz_a_corpo = Some 10
   \<and> um_contains ''corpo'' voce_pz_a_corpo
   \<and> calcola_totale_voce voce_pz_a_corpo = 30
   \<and> calcola_totale_voce voce_pz_a_corpo \<noteq> py_round 10 2"
  by code_simp

text \<open>
  C3, amended: a priced line whose unit of measure contains \<^verbatim>\<open>corpo\<close> totals
  round(price, 2) regardless of its quantity, and regardless of its piece count unless the
  unit of measure contains \<^verbatim>\<open>pz\<close> too; the \<^verbatim>\<open>pz\<close> test comes first in the chain, so
  such a line with a piece count totals round(price * piece count, 2).
\<close>

theorem corpo_totale:
  assumes "prezzo voce = Some p" and "um_contains ''corpo'' voce"
  shows "calcola_totale_voce voce =
           (if um_contains ''pz'' voce
            then (case pz voce of
                    Some n \<Rightarrow> py_round (p * of_int n) 2
                  | None \<Rightarrow> py_round p 2)
            else py_round p 2)"
  using assms by (simp add: calcola_totale_voce_def regola_um_def split: option.splits)

theorem corpo_totale_witness:
  "prezzo voce_a_corpo = Some 50000
   \<and> um_contains ''corpo'' voce_a_corpo
   \<and> \<not> um_contains ''pz'' voce_a_corpo
   \<and> qta voce_a_corpo = Some 7
   \<and> calcola_totale_voce voce_a_corpo = 50000"
proof -
  have p: "prezzo voce_a_corpo = Some 50000" by code_simp
  have u: "um_contains ''corpo'' voce_a_corpo" by code_simp
  have n: "\<not> um_contains ''pz'' voce_a_corpo" by code_simp
  have q: "qta voce_a_corpo = Some 7" by code_simp
  have r: "py_round 50000 2 = 50000" by code_simp
  from corpo_totale [OF p u] p u n q r show ?thesis by simp
qed
section \<open>Aggregation\<close>



section \<open>Display formatting of amounts\<close>

text \<open>
  C10. \<^verbatim>\<open>formatta_euro\<close> writes every value in the Italian convention: the integer
  digits in groups of three separated by \<^verbatim>\<open>.\<close>, a \<^verbatim>\<open>,\<close>, exactly two decimals, and the
  euro sign after a space; 1234.5 gives \<^verbatim>\<open>1.234,50\<close> and 0 gives \<^verbatim>\<open>0,00\<close>, each
  followed by the space and the euro sign.
\<close>

theorem formatta_euro_formato:
  "formatta_euro v = formato_italiano v
   \<and> formatta_euro 1234.5 = ''1.234,50 '' @ euro_sign
   \<and> formatta_euro 0 = ''0,00 '' @ euro_sign"
proof -
  have a: "formatta_euro 1234.5 = ''1.234,50 '' @ euro_sign"
  proof -
    have n: "nat (round_half_even 123450) = 123450"
      by (simp add: round_half_even_def)
    have ip: "group3 CHR '','' (str_nat 1234) = ''1,234''" by code_simp
    have fp: "zfill 2 (str_nat 50) = ''50''" by code_simp
    have "py_format_f True 2 1234.5 = ''1,234.50''"
      by (simp add: py_format_f_def n ip fp)
    then show ?thesis by (simp add: formatta_euro_def replace_char_def euro_sign_def)
  qed
  have b: "formatta_euro 0 = ''0,00 '' @ euro_sign"
  proof -
    have n: "nat (round_half_even 0) = 0"
      by (simp add: round_half_even_def)
    have ip: "group3 CHR '','' (str_nat 0) = ''0''" by code_simp
    have fp: "zfill 2 (str_nat 0) = ''00''" by code_simp
    have "py_format_f True 2 0 = ''0.00''"
      by (simp add: py_format_f_def n ip fp)
    then show ?thesis by (simp add: formatta_euro_def replace_char_def euro_sign_def)
  qed
  from a b show ?thesis by (simp only: formatta_euro_italiano simp_thms)
qed

section \<open>Tax and grand total\<close>

text \<open>
  C4, as stated: the grand total would be the subtotal plus round(subtotal * taxPct/100,
  2). With subtotal 1 and tax percentage 12.5 the tax amount is 0.125 and the grand total
  1.125, while the tax rounded to two decimals is 0.12 and would give 1.12.
\<close>

theorem iva_arrotondata_counterexample:
  "totali_finali 1 12.5 = (1, 0.125, 1.125)
   \<and> py_round (1 * 12.5 / 100) 2 = 0.12
   \<and> snd (snd (totali_finali 1 12.5)) \<noteq> 1 + py_round (1 * 12.5 / 100) 2"
proof -
  have "py_round (1 * 12.5 / 100) 2 = 0.12"
    by (simp add: py_round_def round_half_even_def)
  then show ?thesis by (simp add: totali_finali_def Let_def)
qed

text \<open>
  C4, amended: the tax amount is subtotal * (taxPct / 100) and the grand total is the
  subtotal plus that tax amount, neither of them rounded; two decimals appear only where
  \<^verbatim>\<open>formatta_euro\<close> prints an amount. With tax percentage 22 and subtotal 100 the tax
  amount is 22 and the grand total 122, printed as \<^verbatim>\<open>22,00\<close> and \<^verbatim>\<open>122,00\<close> with the
  euro sign.
\<close>

theorem iva_non_arrotondata:
  "totali_finali subtotale iva_pct
     = (subtotale, subtotale * (iva_pct / 100), subtotale + subtotale * (iva_pct / 100))
   \<and> totali_finali 100 22 = (100, 22, 122)
   \<and> formatta_euro 22 = ''22,00 '' @ euro_sign
   \<and> formatta_euro 122 = ''122,00 '' @ euro_sign"
proof -
  have z: "zfill 2 (str_nat 0) = ''00''" by code_simp
  have a: "formatta_euro 22 = ''22,00 '' @ euro_sign"
  proof -
    have n: "nat (round_half_even 2200) = 2200"
      by (simp add: round_half_even_def)
    have ip: "group3 CHR '','' (str_nat 22) = ''22''" by code_simp
    have "py_format_f True 2 22 = ''22.00''"
      by (simp add: py_format_f_def n ip z)
    then show ?thesis by (simp add: formatta_euro_def replace_char_def euro_sign_def)
  qed
  have b: "formatta_euro 122 = ''122,00 '' @ euro_sign"
  proof -
    have n: "nat (round_half_even 12200) = 12200"
      by (simp add: round_half_even_def)
    have ip: "group3 CHR '','' (str_nat 122) = ''122''" by code_simp
    have "py_format_f True 2 122 = ''122.00''"
      by (simp add: py_format_f_def n ip z)
    then show ?thesis by (simp add: formatta_euro_def replace_char_def euro_sign_def)
  qed
  from a b show ?thesis by (simp add: totali_finali_def Let_def)
qed

section \<open>The span of the position label\<close>

text \<open>
  C6. For a position with exactly one line the conditional entry of the style list is
  \<^verbatim>\<open>None\<close>, not an omitted entry: the list is not a list of commands, \<^verbatim>\<open>setStyle\<close>
  raises \<^verbatim>\<open>TypeError\<close> on it, and the whole rendering call raises, whatever the outcome
  of the logo request. The input is the quotation that the landing page of the service
  documents.
\<close>

theorem span_una_voce:
  "length (voci posizione_una_voce) = 1
   \<and> stile_posizione posizione_una_voce ! 10 = None
   \<and> tabella_posizione posizione_una_voce = Inl TypeError
   \<and> genera_pdf_preventivo rl fetch preventivo_una_voce = Inl TypeError"
proof -
  have one: "length (voci posizione_una_voce) = 1" by (simp add: posizione_una_voce_def)
  then have no: "\<not> 1 < length (voci posizione_una_voce)" by simp
  have "\<exists>pos \<in> set (posizioni preventivo_una_voce). \<not> 1 < length (voci pos)"
    using no by (simp add: preventivo_una_voce_def)
  then have r: "elementi_con_logo logo preventivo_una_voce = Inl TypeError" for logo
    by (rule genera_una_voce_raises)
  have "senza_markup (az_nome (azienda preventivo_una_voce))"
    by (simp add: preventivo_una_voce_def DatiAzienda_default_def senza_markup_def)
  then obtain logo where "logo_element rl fetch preventivo_una_voce = Inr logo"
    using logo_element_semplice by blast
  then have "genera_pdf_preventivo rl fetch preventivo_una_voce = Inl TypeError"
    by (simp add: genera_pdf_preventivo_def and_then_def r)
  moreover have "stile_posizione posizione_una_voce ! 10 = None"
    using no by (simp add: stile_posizione_def)
  ultimately show ?thesis using one tabella_posizione_una [OF no] by simp
qed

section \<open>The logo\<close>

text \<open>
  C8. The fallback itself can raise. When the logo request raises or answers with a
  status other than 200, the handler builds the paragraph of the company name between
  bold tags outside any \<^verbatim>\<open>try\<close>; for a company name that holds markup which the parser
  rejects between bold tags, the rendering call ends with \<^verbatim>\<open>ValueError\<close> instead of a
  document.
\<close>

theorem logo_fallback_raises:
  assumes "\<And>content. fetch \<noteq> Response 200 content"
    and "\<not> senza_markup (az_nome (azienda preventivo))"
    and "parser_rejects rl (''<b>'' @ az_nome (azienda preventivo) @ ''</b>'')"
  shows "genera_pdf_preventivo rl fetch preventivo = Inl ValueError"
proof -
  have "logo_fallback rl preventivo = Inl ValueError"
    using assms(2, 3) by (simp add: logo_fallback_def)
  then have "logo_element rl fetch preventivo = Inl ValueError"
    using logo_element_fallito [of fetch rl preventivo] assms(1) by simp
  then show ?thesis by (simp add: genera_pdf_preventivo_def and_then_def)
qed

text \<open>
  The company name \<^verbatim>\<open><para>AbitaLab</para>\<close>: with a timeout or a 404 the call raises,
  while with the logo the same quotation yields its element list.
\<close>

theorem logo_fallback_raises_witness:
  "(\<forall>content. Raised ''timeout'' \<noteq> Response 200 content)
   \<and> (\<forall>content. Response 404 ''Not Found'' \<noteq> Response 200 content)
   \<and> \<not> senza_markup (az_nome (azienda preventivo_nome_markup))
   \<and> parser_rejects libreria (''<b>'' @ az_nome (azienda preventivo_nome_markup) @ ''</b>'')
   \<and> genera_pdf_preventivo libreria (Raised ''timeout'') preventivo_nome_markup
       = Inl ValueError
   \<and> genera_pdf_preventivo libreria (Response 404 ''Not Found'') preventivo_nome_markup
       = Inl ValueError
   \<and> (\<exists>elements.
         genera_pdf_preventivo libreria (Response 200 (png_signature @ ''logo''))
           preventivo_nome_markup = Inr elements)"
proof -
  let ?p = preventivo_nome_markup
  have r: "Raised ''timeout'' \<noteq> Response 200 content" for content by simp
  have n: "Response 404 ''Not Found'' \<noteq> Response 200 content" for content by simp
  have nm: "az_nome (azienda ?p) = ''<para>AbitaLab</para>''"
    by (simp add: preventivo_nome_markup_def)
  have m: "\<not> senza_markup (az_nome (azienda ?p))"
    by (simp add: nm senza_markup_def)
  have "str_in ''<b><para>'' ''<b><para>AbitaLab</para></b>''" by code_simp
  then have j: "parser_rejects libreria (''<b>'' @ az_nome (azienda ?p) @ ''</b>'')"
    by (simp add: nm libreria_def)
  have v: "\<forall>pos \<in> set (posizioni ?p). 1 < length (voci pos)"
    by (simp add: preventivo_nome_markup_def esempio_def)
  have "startswith (png_signature @ ''logo'') png_signature" by code_simp
  then have "logo_element libreria (Response 200 (png_signature @ ''logo'')) ?p
               = Inr (Image (png_signature @ ''logo'') (7 * cm) (2 * cm) ''LEFT'')"
    by (simp add: logo_element_def logo_try_def libreria_def)
  then have ok: "\<exists>elements.
      genera_pdf_preventivo libreria (Response 200 (png_signature @ ''logo'')) ?p
        = Inr elements"
    using genera_molte_voci_ok [OF v]
    by (simp add: genera_pdf_preventivo_def and_then_def) blast
  from logo_fallback_raises [OF r m j] logo_fallback_raises [OF n m j] r n m j ok
  show ?thesis by blast
qed

section \<open>Page numbers\<close>

text \<open>
  C7. While the content is laid out no page reaches the document: each \<^verbatim>\<open>showPage\<close>
  records the page being drawn, that is its number and the operators drawn since the
  previous page boundary, so the records are the pages numbered 1 to N, where N is the
  number of page boundaries. \<^verbatim>\<open>save\<close> then emits exactly the recorded pages, in
  order, each with its own operators followed by the stamp \<^verbatim>\<open>Pagina X di N\<close>, X its own
  number, drawn right-aligned in Helvetica 8 with the same N on every page.
\<close>

theorem numerazione_differita:
  "doc (layout es Canvas_init) = []
   \<and> length (pages (layout es Canvas_init)) = count_list es ShowPage
   \<and> map fst (pages (layout es Canvas_init)) = [1 ..< Suc (count_list es ShowPage)]
   \<and> map snd (pages (layout es Canvas_init)) = pagine es []
   \<and> doc (save (layout es Canvas_init))
       = map (\<lambda>(x, ops).
                ops @ [SetFont ''Helvetica'' 8,
                       DrawRightString (20 * cm) (1 * cm)
                         (''Pagina '' @ str_nat x @ '' di ''
                          @ str_nat (count_list es ShowPage))])
           (zip [1 ..< Suc (count_list es ShowPage)] (pagine es []))"
proof -
  let ?c = "layout es Canvas_init"
  let ?n = "count_list es ShowPage"
  have d: "doc ?c = []" by (simp add: layout_doc Canvas_init_def)
  have p: "pages ?c = zip [1 ..< Suc ?n] (pagine es [])"
    using layout_pages [of es Canvas_init] by (simp add: Canvas_init_def)
  have l: "length (pages ?c) = ?n" by (simp add: p length_pagine)
  have f: "map fst (pages ?c) = [1 ..< Suc ?n]" by (simp add: p length_pagine)
  have g: "map snd (pages ?c) = pagine es []" by (simp add: p length_pagine)
  have s: "stamped k = (\<lambda>(x, ops).
             ops @ [SetFont ''Helvetica'' 8,
                    DrawRightString (20 * cm) (1 * cm)
                      (''Pagina '' @ str_nat x @ '' di '' @ str_nat k)])" for k
    by (rule ext) (simp add: stamped_def split: prod.splits)
  have "doc (save ?c) = map (stamped ?n) (pages ?c)"
    using d l by (simp add: save_doc)
  then have e: "doc (save ?c) = map (stamped ?n) (zip [1 ..< Suc ?n] (pagine es []))"
    by (simp only: p)
  from d l f g e show ?thesis by (simp only: s simp_thms)
qed

text \<open>
  Three operators on two pages: nothing is emitted before \<^verbatim>\<open>save\<close>, which emits both
  pages with their operators and their stamps.
\<close>

lemma numerazione_due_pagine:
  "doc (layout [Draw (Content ''a''), Draw (Content ''b''), ShowPage,
                Draw (Content ''c''), ShowPage] Canvas_init) = []
   \<and> doc (save (layout [Draw (Content ''a''), Draw (Content ''b''), ShowPage,
                         Draw (Content ''c''), ShowPage] Canvas_init))
       = [[Content ''a'', Content ''b'', SetFont ''Helvetica'' 8,
           DrawRightString (20 * cm) (1 * cm) ''Pagina 1 di 2''],
          [Content ''c'', SetFont ''Helvetica'' 8,
           DrawRightString (20 * cm) (1 * cm) ''Pagina 2 di 2'']]"
proof -
  have "str_nat (Suc 0) = ''1''" "str_nat (Suc (Suc 0)) = ''2''"
    by (subst str_nat.simps, simp add: digit_char_def)+
  then show ?thesis
    by (simp add: save_def Canvas_save_def Canvas_showPage_def showPage_def startPage_def
        draw_page_number_def draw_def update_def Canvas_init_def)
qed


end
